theory Spec2Isabelle
  imports Main "HOL-Library.Word"
begin

unbundle bit_operations_syntax

section \<open>Python 2 strings and the implicit ASCII codec\<close>

text \<open>
  \<^verbatim>\<open>blackboard.py\<close> is a Python 2 program. A Python 2 \<^verbatim>\<open>str\<close> is a
  string of bytes, modelled as \<^typ>\<open>string\<close> (a \<^typ>\<open>char\<close> is one byte); a
  \<^verbatim>\<open>unicode\<close> object is a list of code points. Where a \<^verbatim>\<open>str\<close> is used as
  text (\<^verbatim>\<open>str.encode\<close>) or a \<^verbatim>\<open>unicode\<close> as bytes (\<^verbatim>\<open>md5(u)\<close>), Python 2
  converts through the default codec, ASCII, and raises on anything else.
\<close>

datatype pystr = Str string | Unicode "nat list"

datatype error =
    UnicodeDecodeError
  | UnicodeEncodeError
  | InvalidCredentialsException
  | ExternalError string

definition is_ascii :: "string \<Rightarrow> bool" where
  "is_ascii s = list_all (\<lambda>c. (of_char c :: nat) < 128) s"

definition is_ascii_u :: "nat list \<Rightarrow> bool" where
  "is_ascii_u u = list_all (\<lambda>n. n < 128) u"

text \<open>\<^verbatim>\<open>s.decode('ascii')\<close>, the implicit \<^verbatim>\<open>str\<close> to \<^verbatim>\<open>unicode\<close> coercion.\<close>

definition ascii_decode :: "string \<Rightarrow> error + nat list" where
  "ascii_decode s = (if is_ascii s then Inr (map of_char s) else Inl UnicodeDecodeError)"

text \<open>\<^verbatim>\<open>u.encode('ascii')\<close>, the implicit \<^verbatim>\<open>unicode\<close> to \<^verbatim>\<open>str\<close> coercion.\<close>

definition ascii_encode :: "nat list \<Rightarrow> error + string" where
  "ascii_encode u = (if is_ascii_u u then Inr (map char_of u) else Inl UnicodeEncodeError)"

text \<open>The UTF-16-LE codec on code points: two bytes, low byte first; a surrogate pair
  above the basic plane.\<close>

definition utf16_unit :: "nat \<Rightarrow> string" where
  "utf16_unit n = [char_of (n mod 256), char_of (n div 256 mod 256)]"

definition utf_16_le_cp :: "nat \<Rightarrow> string" where
  "utf_16_le_cp n =
     (if n < 0x10000 then utf16_unit n
      else utf16_unit (0xD800 + (n - 0x10000) div 0x400 mod 0x400)
         @ utf16_unit (0xDC00 + (n - 0x10000) mod 0x400))"

definition utf_16_le :: "nat list \<Rightarrow> string" where
  "utf_16_le u = concat (map utf_16_le_cp u)"

text \<open>\<^verbatim>\<open>x.encode('UTF-16-LE')\<close> for a Python 2 string of either type.\<close>

fun encode_utf_16_le :: "pystr \<Rightarrow> error + string" where
  "encode_utf_16_le (Unicode u) = Inr (utf_16_le u)"
| "encode_utf_16_le (Str s) =
     (case ascii_decode s of Inl e \<Rightarrow> Inl e | Inr u \<Rightarrow> Inr (utf_16_le u))"

text \<open>The bytes a C function reading a string buffer (\<^verbatim>\<open>md5\<close>) gets.\<close>

fun as_buffer :: "pystr \<Rightarrow> error + string" where
  "as_buffer (Str s) = Inr s"
| "as_buffer (Unicode u) = ascii_encode u"

section \<open>\<^verbatim>\<open>hashlib.md5\<close> (RFC 1321)\<close>

definition md5_s :: "nat list" where
  "md5_s = [7, 12, 17, 22, 7, 12, 17, 22, 7, 12, 17, 22, 7, 12, 17, 22,
            5, 9, 14, 20, 5, 9, 14, 20, 5, 9, 14, 20, 5, 9, 14, 20,
            4, 11, 16, 23, 4, 11, 16, 23, 4, 11, 16, 23, 4, 11, 16, 23,
            6, 10, 15, 21, 6, 10, 15, 21, 6, 10, 15, 21, 6, 10, 15, 21]"

definition md5_K :: "32 word list" where
  "md5_K = [0xd76aa478, 0xe8c7b756, 0x242070db, 0xc1bdceee,
            0xf57c0faf, 0x4787c62a, 0xa8304613, 0xfd469501,
            0x698098d8, 0x8b44f7af, 0xffff5bb1, 0x895cd7be,
            0x6b901122, 0xfd987193, 0xa679438e, 0x49b40821,
            0xf61e2562, 0xc040b340, 0x265e5a51, 0xe9b6c7aa,
            0xd62f105d, 0x02441453, 0xd8a1e681, 0xe7d3fbc8,
            0x21e1cde6, 0xc33707d6, 0xf4d50d87, 0x455a14ed,
            0xa9e3e905, 0xfcefa3f8, 0x676f02d9, 0x8d2a4c8a,
            0xfffa3942, 0x8771f681, 0x6d9d6122, 0xfde5380c,
            0xa4beea44, 0x4bdecfa9, 0xf6bb4b60, 0xbebfbc70,
            0x289b7ec6, 0xeaa127fa, 0xd4ef3085, 0x04881d05,
            0xd9d4d039, 0xe6db99e5, 0x1fa27cf8, 0xc4ac5665,
            0xf4292244, 0x432aff97, 0xab9423a7, 0xfc93a039,
            0x655b59c3, 0x8f0ccc92, 0xffeff47d, 0x85845dd1,
            0x6fa87e4f, 0xfe2ce6e0, 0xa3014314, 0x4e0811a1,
            0xf7537e82, 0xbd3af235, 0x2ad7d2bb, 0xeb86d391]"

type_synonym md5_state = "32 word \<times> 32 word \<times> 32 word \<times> 32 word"

definition md5_init :: md5_state where
  "md5_init = (0x67452301, 0xefcdab89, 0x98badcfe, 0x10325476)"

fun le_bytes :: "nat \<Rightarrow> nat \<Rightarrow> string" where
  "le_bytes 0 v = []"
| "le_bytes (Suc k) v = char_of (v mod 256) # le_bytes k (v div 256)"

definition md5_pad :: "string \<Rightarrow> string" where
  "md5_pad m =
     m @ [CHR 0x80] @ replicate ((119 - length m mod 64) mod 64) (CHR 0x00)
       @ le_bytes 8 (8 * length m)"

fun md5_words :: "string \<Rightarrow> 32 word list" where
  "md5_words (a # b # c # d # rest) =
     (of_char a + push_bit 8 (of_char b) + push_bit 16 (of_char c) + push_bit 24 (of_char d))
       # md5_words rest"
| "md5_words _ = []"

definition word_le_bytes :: "32 word \<Rightarrow> string" where
  "word_le_bytes w =
     map (\<lambda>k. char_of (unat (take_bit 8 (drop_bit k w)))) [0, 8, 16, 24]"

definition md5_step :: "32 word list \<Rightarrow> md5_state \<Rightarrow> nat \<Rightarrow> md5_state" where
  "md5_step M st i =
     (case st of (a, b, c, d) \<Rightarrow>
        let f = (if i < 16 then (b AND c) OR (NOT b AND d)
                 else if i < 32 then (d AND b) OR (NOT d AND c)
                 else if i < 48 then b XOR c XOR d
                 else c XOR (b OR NOT d));
            g = (if i < 16 then i
                 else if i < 32 then (5 * i + 1) mod 16
                 else if i < 48 then (3 * i + 5) mod 16
                 else (7 * i) mod 16)
        in (d, b + word_rotl (md5_s ! i) (a + f + md5_K ! i + M ! g), b, c))"

definition md5_block :: "md5_state \<Rightarrow> 32 word list \<Rightarrow> md5_state" where
  "md5_block st M =
     (case st of (a0, b0, c0, d0) \<Rightarrow>
        case foldl (md5_step M) st [0..<64] of (a, b, c, d) \<Rightarrow>
          (a0 + a, b0 + b, c0 + c, d0 + d))"

fun md5_blocks :: "nat \<Rightarrow> md5_state \<Rightarrow> 32 word list \<Rightarrow> md5_state" where
  "md5_blocks 0 st ws = st"
| "md5_blocks (Suc n) st ws = md5_blocks n (md5_block st (take 16 ws)) (drop 16 ws)"

definition md5_digest :: "string \<Rightarrow> string" where
  "md5_digest m =
     (let ws = md5_words (md5_pad m)
      in case md5_blocks (length ws div 16) md5_init ws of (a, b, c, d) \<Rightarrow>
           concat (map word_le_bytes [a, b, c, d]))"

definition hex_digit :: "nat \<Rightarrow> char" where
  "hex_digit n = ''0123456789abcdef'' ! (n mod 16)"

definition hex_byte :: "char \<Rightarrow> string" where
  "hex_byte c = [hex_digit (of_char c div 16), hex_digit (of_char c mod 16)]"

text \<open>\<^verbatim>\<open>md5(s).hexdigest()\<close>: 32 lower-case hexadecimal digits.\<close>

definition md5_hexdigest :: "string \<Rightarrow> string" where
  "md5_hexdigest m = concat (map hex_byte (md5_digest m))"

text \<open>\<^verbatim>\<open>str.upper()\<close> in the C locale: only \<^verbatim>\<open>a\<close>..\<^verbatim>\<open>z\<close> change.\<close>

definition upper_char :: "char \<Rightarrow> char" where
  "upper_char c =
     (if (97::nat) \<le> of_char c \<and> (of_char c :: nat) \<le> 122
      then char_of (of_char c - (32::nat)) else c)"

definition upper :: "string \<Rightarrow> string" where
  "upper s = map upper_char s"

section \<open>More of the Python 2 library\<close>

text \<open>\<^verbatim>\<open>str.strip()\<close> removes the bytes C's \<^verbatim>\<open>isspace\<close> accepts;
  \<^verbatim>\<open>unicode.strip()\<close> removes the code points of CPython 2.7's table of Unicode
  whitespace.\<close>

definition str_space :: "char \<Rightarrow> bool" where
  "str_space c = ((9::nat) \<le> of_char c \<and> (of_char c :: nat) \<le> 13 \<or> (of_char c :: nat) = 32)"

definition unicode_space :: "nat \<Rightarrow> bool" where
  "unicode_space n =
     (9 \<le> n \<and> n \<le> 13 \<or> 28 \<le> n \<and> n \<le> 32 \<or> n = 0x85 \<or> n = 0xA0 \<or> n = 0x1680
      \<or> n = 0x180E \<or> 0x2000 \<le> n \<and> n \<le> 0x200A \<or> n = 0x2028 \<or> n = 0x2029
      \<or> n = 0x202F \<or> n = 0x205F \<or> n = 0x3000)"

definition strip :: "('a \<Rightarrow> bool) \<Rightarrow> 'a list \<Rightarrow> 'a list" where
  "strip sp xs = rev (dropWhile sp (rev (dropWhile sp xs)))"

text \<open>The UTF-8 codec on code points (a UCS-4 build of CPython 2, where every element
  of a \<^verbatim>\<open>unicode\<close> object is a code point and a surrogate is encoded like any other
  code point below \<^verbatim>\<open>0x10000\<close>; the encoder never calls the error handler).\<close>

definition utf_8_cp :: "nat \<Rightarrow> string" where
  "utf_8_cp n =
     (if n < 0x80 then [char_of n]
      else if n < 0x800 then [char_of (0xC0 + n div 0x40), char_of (0x80 + n mod 0x40)]
      else if n < 0x10000 then
        [char_of (0xE0 + n div 0x1000), char_of (0x80 + n div 0x40 mod 0x40),
         char_of (0x80 + n mod 0x40)]
      else
        [char_of (0xF0 + n div 0x40000 mod 8), char_of (0x80 + n div 0x1000 mod 0x40),
         char_of (0x80 + n div 0x40 mod 0x40), char_of (0x80 + n mod 0x40)])"

definition utf_8 :: "nat list \<Rightarrow> string" where
  "utf_8 u = concat (map utf_8_cp u)"

text \<open>\<^verbatim>\<open>str(v)\<close>.\<close>

fun py_str :: "pystr \<Rightarrow> error + string" where
  "py_str (Str s) = Inr s"
| "py_str (Unicode u) = ascii_encode u"

text \<open>\<^verbatim>\<open>urllib.quote_plus\<close> and \<^verbatim>\<open>urllib.urlencode\<close> of a dictionary. The
  dictionary is an association list with distinct keys; the fields are joined in the
  order of the list (the order CPython's hash table gives them is not modelled).\<close>

definition always_safe :: "char \<Rightarrow> bool" where
  "always_safe c =
     (c \<in> set ''ABCDEFGHIJKLMNOPQRSTUVWXYZabcdefghijklmnopqrstuvwxyz0123456789_.-'')"

definition quote_plus_char :: "char \<Rightarrow> string" where
  "quote_plus_char c =
     (if always_safe c then [c]
      else if c = CHR '' '' then ''+''
      else CHR ''%'' # upper (hex_byte c))"

definition quote_plus :: "string \<Rightarrow> string" where
  "quote_plus s = concat (map quote_plus_char s)"

fun join :: "string \<Rightarrow> string list \<Rightarrow> string" where
  "join sep [] = []"
| "join sep [x] = x"
| "join sep (x # y # ys) = x @ sep @ join sep (y # ys)"

fun urlencode_items :: "(string \<times> pystr) list \<Rightarrow> error + string list" where
  "urlencode_items [] = Inr []"
| "urlencode_items ((k, v) # kvs) =
     (case py_str v of
        Inl e \<Rightarrow> Inl e
      | Inr s \<Rightarrow>
          (case urlencode_items kvs of
             Inl e \<Rightarrow> Inl e
           | Inr l \<Rightarrow> Inr ((quote_plus k @ ''='' @ quote_plus s) # l)))"

definition urlencode :: "(string \<times> pystr) list \<Rightarrow> error + string" where
  "urlencode query =
     (case urlencode_items query of Inl e \<Rightarrow> Inl e | Inr l \<Rightarrow> Inr (join ''&'' l))"

section \<open>The parsed page and the XPath query of the nonce\<close>

text \<open>An element of the tree \<^verbatim>\<open>lxml.html.parse\<close> returns: its tag, its attributes
  (as code points) and its child elements. Text nodes play no part in the query.\<close>

datatype element =
  Element (tag: string) (attrib: "(string \<times> nat list) list") (children: "element list")

text \<open>In Python 2, lxml hands a string result back as a \<^verbatim>\<open>str\<close> when it is plain
  ASCII and as a \<^verbatim>\<open>unicode\<close> otherwise.\<close>

definition smart_string :: "nat list \<Rightarrow> pystr" where
  "smart_string v = (if is_ascii_u v then Str (map char_of v) else Unicode v)"

fun descendant_or_self :: "element \<Rightarrow> element list" where
  "descendant_or_self (Element t a cs) =
     Element t a cs # concat (map descendant_or_self cs)"

definition one_time_token_input :: "element \<Rightarrow> bool" where
  "one_time_token_input e =
     (tag e = ''input'' \<and> map_of (attrib e) ''name'' = Some (map of_char ''one_time_token''))"

definition value_attribute :: "element \<Rightarrow> pystr list" where
  "value_attribute e =
     (case map_of (attrib e) ''value'' of None \<Rightarrow> [] | Some v \<Rightarrow> [smart_string v])"

section \<open>The environment: URL joining, the HTTP opener's network, the HTML parser\<close>

record request =
  req_url :: string
  req_data :: "string option"

record response =
  resp_url :: string
  resp_body :: string

type_synonym cookiejar = "(string \<times> string) list"

text \<open>What \<^verbatim>\<open>blackboard.py\<close> calls and does not define: \<^verbatim>\<open>urlparse.urljoin\<close>;
  one \<^verbatim>\<open>open\<close> of a urllib2 opener with a cookie processor, which takes the remote
  world and the cookie jar to a response (its final URL and body) or a failure, and
  to the new jar and world; \<^verbatim>\<open>lxml.html.parse\<close>. A failure of urllib2 or of lxml
  is a message; the program passes the exception on unchanged, as
  \<^const>\<open>ExternalError\<close>.\<close>

record 'w env =
  urljoin :: "string \<Rightarrow> string \<Rightarrow> string"
  net :: "'w \<Rightarrow> cookiejar \<Rightarrow> request \<Rightarrow> (string + response) \<times> cookiejar \<times> 'w"
  parse :: "string \<Rightarrow> string + element"

text \<open>The state a call works on: the remote world, the opener's cookie jar, and the
  log of the exchanges made so far (each request with what came back).\<close>

record 'w io =
  world :: 'w
  jar :: cookiejar
  exchanged :: "(request \<times> (string + response)) list"

definition opener_open ::
  "'w env \<Rightarrow> 'w io \<Rightarrow> string \<Rightarrow> string option \<Rightarrow> (error + response) \<times> 'w io" where
  "opener_open E st url data =
     (let req = \<lparr>req_url = url, req_data = data\<rparr> in
      case net E (world st) (jar st) req of
        (res, j, w) \<Rightarrow>
          ((case res of Inl msg \<Rightarrow> Inl (ExternalError msg) | Inr r \<Rightarrow> Inr r),
           \<lparr>world = w, jar = j, exchanged = exchanged st @ [(req, res)]\<rparr>))"

section \<open>\<^verbatim>\<open>blackboard.py\<close>\<close>

text \<open>\<^verbatim>\<open>clean_string(string)\<close> is \<^verbatim>\<open>string.strip().encode('UTF-8', 'ignore')\<close>. On a
  \<^verbatim>\<open>str\<close>, \<^verbatim>\<open>encode\<close> first decodes with the ASCII codec, strictly: the handler
  \<^verbatim>\<open>'ignore'\<close> is the encoder's only.\<close>

fun clean_string :: "pystr \<Rightarrow> error + string" where
  "clean_string (Str s) =
     (case ascii_decode (strip str_space s) of Inl e \<Rightarrow> Inl e | Inr u \<Rightarrow> Inr (utf_8 u))"
| "clean_string (Unicode u) = Inr (utf_8 (strip unicode_space u))"

text \<open>\<^verbatim>\<open>xp_text_single(element, xpath)\<close>: the cleaned first result of the query, or
  \<^verbatim>\<open>''\<close> when there is none. The query is given by what it evaluates to on an
  element.\<close>

definition xp_text_single :: "element \<Rightarrow> (element \<Rightarrow> pystr list) \<Rightarrow> error + string" where
  "xp_text_single element xpath =
     (case xpath element of [] \<Rightarrow> Inr [] | x # _ \<Rightarrow> clean_string x)"

definition Login_url :: string where
  "Login_url = ''/webapps/login/''"

definition Login_new_loc :: string where
  "Login_new_loc = ''/webapps/portal/frameset.jsp''"

text \<open>\<^verbatim>\<open>//input[@name="one_time_token"]/@value\<close>: the \<^verbatim>\<open>value\<close> attributes of the
  \<^verbatim>\<open>input\<close> elements named \<^verbatim>\<open>one_time_token\<close>, in document order.\<close>

definition Login_xp_nonce :: "element \<Rightarrow> pystr list" where
  "Login_xp_nonce root =
     concat (map value_attribute (filter one_time_token_input (descendant_or_self root)))"

text \<open>The fields of a \<^verbatim>\<open>Login\<close> object. Its opener is the cookie jar of the state:
  \<^verbatim>\<open>get_opener\<close> hands out the \<^verbatim>\<open>open\<close> that works on that jar.\<close>

record login =
  base_url :: string
  user :: pystr
  password :: pystr
  nonce :: string

text \<open>\<^verbatim>\<open>_fetch_nonce(self)\<close>: open the login URL, parse the answer, query the tree.\<close>

definition fetch_nonce :: "'w env \<Rightarrow> 'w io \<Rightarrow> string \<Rightarrow> (error + string) \<times> 'w io" where
  "fetch_nonce E st base =
     (case opener_open E st (urljoin E base Login_url) None of
        (Inl e, st') \<Rightarrow> (Inl e, st')
      | (Inr fp, st') \<Rightarrow>
          (case parse E (resp_body fp) of
             Inl msg \<Rightarrow> (Inl (ExternalError msg), st')
           | Inr html \<Rightarrow> (xp_text_single html Login_xp_nonce, st')))"

text \<open>\<^verbatim>\<open>d\<close> of \<^verbatim>\<open>_challenge_login\<close>: \<^verbatim>\<open>md5(s).hexdigest().upper()\<close>.\<close>

definition d :: "pystr \<Rightarrow> error + string" where
  "d s = (case as_buffer s of Inl e \<Rightarrow> Inl e | Inr b \<Rightarrow> Inr (upper (md5_hexdigest b)))"

text \<open>\<^verbatim>\<open>_challenge_login(self, token)\<close>, with \<^verbatim>\<open>self._password\<close> as an argument:
  \<^verbatim>\<open>enc_p = d(self._password)\<close>, \<^verbatim>\<open>enc_pu = d(self._password.encode('UTF-16-LE'))\<close>,
  and the pair \<^verbatim>\<open>d(enc_p + token), d((enc_pu + token).encode('UTF-16-LE'))\<close>, each
  step raising what the codecs raise. The token is a \<^verbatim>\<open>str\<close>: \<^verbatim>\<open>_fetch_nonce\<close>
  returns nothing else.\<close>

definition challenge_login :: "pystr \<Rightarrow> string \<Rightarrow> error + string \<times> string" where
  "challenge_login pw token =
     (case d pw of
        Inl e \<Rightarrow> Inl e
      | Inr enc_p \<Rightarrow>
          (case encode_utf_16_le pw of
             Inl e \<Rightarrow> Inl e
           | Inr pw_u \<Rightarrow>
               (case d (Str pw_u) of
                  Inl e \<Rightarrow> Inl e
                | Inr enc_pu \<Rightarrow>
                    (case d (Str (enc_p @ token)) of
                       Inl e \<Rightarrow> Inl e
                     | Inr encoded_pw \<Rightarrow>
                         (case encode_utf_16_le (Str (enc_pu @ token)) of
                            Inl e \<Rightarrow> Inl e
                          | Inr seed_u \<Rightarrow>
                              (case d (Str seed_u) of
                                 Inl e \<Rightarrow> Inl e
                               | Inr encoded_pw_u \<Rightarrow> Inr (encoded_pw, encoded_pw_u)))))))"

text \<open>The dictionary \<^verbatim>\<open>parameters\<close> of \<^verbatim>\<open>Login.__init__\<close>.\<close>

definition parameters :: "pystr \<Rightarrow> string \<Rightarrow> string \<Rightarrow> string \<Rightarrow> (string \<times> pystr) list" where
  "parameters usr tok encoded_pw encoded_pw_u =
     [(''user_id'', usr),
      (''password'', Str []),
      (''login'', Str (''Iniciar sesi'' @ [CHR 0xC3, CHR 0xB3] @ ''n'')),
      (''action'', Str ''login''),
      (''remote-user'', Str []),
      (''new_loc'', Str Login_new_loc),
      (''auth_type'', Str []),
      (''one_time_token'', Str tok),
      (''encoded_pw'', Str encoded_pw),
      (''encoded_pw_unicode'', Str encoded_pw_u)]"

text \<open>\<^verbatim>\<open>Login.__init__(self, base_url, user, password)\<close>, run against the world
  \<open>w\<close>: the opener starts with an empty cookie jar; the nonce is fetched, the digests
  derived, the form encoded and posted to the login URL, and the call raises
  \<^verbatim>\<open>InvalidCredentialsException\<close> when the answer's URL is the login URL. The result
  is the constructed object or the exception raised, with the state the call leaves.
  \<^verbatim>\<open>Courses\<close>, a sample client of the session, is not modelled.\<close>

definition Login_init ::
  "'w env \<Rightarrow> 'w \<Rightarrow> string \<Rightarrow> pystr \<Rightarrow> pystr \<Rightarrow> (error + login) \<times> 'w io" where
  "Login_init E w base usr pw =
     (case fetch_nonce E \<lparr>world = w, jar = [], exchanged = []\<rparr> base of
        (Inl e, st1) \<Rightarrow> (Inl e, st1)
      | (Inr tok, st1) \<Rightarrow>
          (case challenge_login pw tok of
             Inl e \<Rightarrow> (Inl e, st1)
           | Inr (encoded_pw, encoded_pw_u) \<Rightarrow>
               (let url = urljoin E base Login_url in
                case urlencode (parameters usr tok encoded_pw encoded_pw_u) of
                  Inl e \<Rightarrow> (Inl e, st1)
                | Inr body \<Rightarrow>
                    (case opener_open E st1 url (Some body) of
                       (Inl e, st2) \<Rightarrow> (Inl e, st2)
                     | (Inr r, st2) \<Rightarrow>
                         if url = resp_url r then (Inl InvalidCredentialsException, st2)
                         else (Inr \<lparr>base_url = base, user = usr, password = pw,
                                    nonce = tok\<rparr>, st2)))))"

section \<open>The challenge digests as the specification words them\<close>

text \<open>\<open>h(bytes) = uppercase-hex(MD5(bytes))\<close>; the secret as raw 8-bit bytes and
  re-encoded as UTF-16 little-endian bytes (a byte string is re-encoded byte by byte,
  each byte one 16-bit unit); \<open>encodedPw = h(pwHash ++ nonce)\<close> and
  \<open>encodedPwUnicode = h((pwHashUnicode ++ nonce) re-encoded as UTF-16 little-endian
  bytes)\<close>.\<close>

definition spec_hex_byte :: "char \<Rightarrow> string" where
  "spec_hex_byte c =
     [''0123456789ABCDEF'' ! (of_char c div 16), ''0123456789ABCDEF'' ! (of_char c mod 16)]"

definition h :: "string \<Rightarrow> string" where
  "h b = concat (map spec_hex_byte (md5_digest b))"

definition utf16le_of_bytes :: "string \<Rightarrow> string" where
  "utf16le_of_bytes s = concat (map (\<lambda>c. [c, CHR 0x00]) s)"

fun raw_bytes :: "pystr \<Rightarrow> string" where
  "raw_bytes (Str s) = s"
| "raw_bytes (Unicode u) = map char_of u"

fun utf16le_text :: "pystr \<Rightarrow> string" where
  "utf16le_text (Str s) = utf16le_of_bytes s"
| "utf16le_text (Unicode u) = utf_16_le u"

fun ascii_secret :: "pystr \<Rightarrow> bool" where
  "ascii_secret (Str s) = is_ascii s"
| "ascii_secret (Unicode u) = is_ascii_u u"

definition spec_encoded_pw :: "pystr \<Rightarrow> string \<Rightarrow> string" where
  "spec_encoded_pw s t = h (h (raw_bytes s) @ t)"

definition spec_encoded_pw_unicode :: "pystr \<Rightarrow> string \<Rightarrow> string" where
  "spec_encoded_pw_unicode s t = h (utf16le_of_bytes (h (utf16le_text s) @ t))"

text \<open>The error Python 2's implicit ASCII codec raises on a secret that is not plain
  ASCII: decoding a \<^verbatim>\<open>str\<close>, encoding a \<^verbatim>\<open>unicode\<close>.\<close>

fun codec_error :: "pystr \<Rightarrow> error" where
  "codec_error (Str s) = UnicodeDecodeError"
| "codec_error (Unicode u) = UnicodeEncodeError"

text \<open>A request to the login URL, and what \<^verbatim>\<open>strip\<close> leaves of an attribute
  value: lxml hands a plain ASCII value over as a \<^verbatim>\<open>str\<close>, which loses the
  whitespace of C's \<^verbatim>\<open>isspace\<close>, and any other value as a \<^verbatim>\<open>unicode\<close>, which
  loses Unicode whitespace.\<close>

definition login_request :: "'w env \<Rightarrow> string \<Rightarrow> string option \<Rightarrow> request" where
  "login_request E base data = \<lparr>req_url = urljoin E base Login_url, req_data = data\<rparr>"

definition str_space_cp :: "nat \<Rightarrow> bool" where
  "str_space_cp n = (9 \<le> n \<and> n \<le> 13 \<or> n = 32)"

definition value_space :: "nat list \<Rightarrow> nat \<Rightarrow> bool" where
  "value_space v = (if is_ascii_u v then str_space_cp else unicode_space)"

definition stripped_value :: "nat list \<Rightarrow> nat list" where
  "stripped_value v = strip (value_space v) v"

section \<open>A mock environment\<close>

text \<open>A server at \<^verbatim>\<open>http://example.test\<close>: a GET returns the login page and sets a
  cookie; a POST either redirects to the portal or renders the login page again, and
  sets the session cookie. The world counts the requests served. URL joining is
  concatenation, which is what \<^verbatim>\<open>urljoin\<close> does for a base URL without a path.\<close>

definition mock_urljoin :: "string \<Rightarrow> string \<Rightarrow> string" where
  "mock_urljoin base url = base @ url"

definition mock_net ::
  "bool \<Rightarrow> nat \<Rightarrow> cookiejar \<Rightarrow> request \<Rightarrow> (string + response) \<times> cookiejar \<times> nat" where
  "mock_net redirect w j q =
     (case req_data q of
        None \<Rightarrow>
          (Inr \<lparr>resp_url = req_url q, resp_body = ''login page''\<rparr>,
           (''JSESSIONID'', ''anonymous'') # j, Suc w)
      | Some body \<Rightarrow>
          (Inr \<lparr>resp_url = (if redirect then ''http://example.test/webapps/portal/frameset.jsp''
                              else req_url q),
                resp_body = []\<rparr>,
           (''session_id'', ''1'') # j, Suc w))"

definition mock_env :: "element \<Rightarrow> bool \<Rightarrow> nat env" where
  "mock_env page redirect =
     \<lparr>urljoin = mock_urljoin, net = mock_net redirect, parse = (\<lambda>body. Inr page)\<rparr>"

definition login_page :: element where
  "login_page =
     Element ''html'' []
       [Element ''body'' []
          [Element ''form'' [(''name'', map of_char ''login'')]
             [Element ''input'' [(''name'', map of_char ''user_id'')] [],
              Element ''input''
                [(''type'', map of_char ''hidden''), (''name'', map of_char ''one_time_token''),
                 (''value'', [32, 78, 48, 78, 67, 69, 32])] []]]]"

definition page_without_token :: element where
  "page_without_token =
     Element ''html'' []
       [Element ''body'' []
          [Element ''form'' [(''name'', map of_char ''login'')]
             [Element ''input'' [(''name'', map of_char ''user_id'')] []]]]"


section \<open>Codecs and digests\<close>

lemma nibble_cases:
  "n < 16 \<Longrightarrow> n \<in> {0, 1, 2, 3, 4, 5, 6, 7, 8, 9, 10, 11, 12, 13, 14, 15::nat}"
  by simp arith

lemma upper_hex_digit:
  assumes "n < 16"
  shows "upper_char (hex_digit n) = ''0123456789ABCDEF'' ! n"
  using nibble_cases [OF assms] by (auto simp: hex_digit_def upper_char_def char_of_eq_iff)

lemma hex_digit_ascii:
  assumes "n < 16"
  shows "(of_char (''0123456789ABCDEF'' ! n) :: nat) < 128"
  using nibble_cases [OF assms] by auto

lemma of_char_div_16: "(of_char c :: nat) div 16 < 16"
proof -
  have "(of_char c :: nat) < 256" by simp
  then show ?thesis by arith
qed

lemma upper_hex_byte: "upper (hex_byte c) = spec_hex_byte c"
  by (simp add: upper_def hex_byte_def spec_hex_byte_def upper_hex_digit of_char_div_16)

lemma upper_concat: "upper (concat xss) = concat (map upper xss)"
  by (induction xss) (simp_all add: upper_def)

lemma upper_hexdigest: "upper (md5_hexdigest b) = h b"
  by (simp add: md5_hexdigest_def h_def upper_concat upper_hex_byte o_def)

lemma is_ascii_append [simp]: "is_ascii (xs @ ys) = (is_ascii xs \<and> is_ascii ys)"
  by (simp add: is_ascii_def)

lemma is_ascii_Nil [simp]: "is_ascii []"
  by (simp add: is_ascii_def)

lemma is_ascii_concat: "is_ascii (concat xss) = list_all is_ascii xss"
  by (induction xss) simp_all

lemma is_ascii_h [simp]: "is_ascii (h b)"
  by (simp add: h_def is_ascii_concat list_all_iff spec_hex_byte_def is_ascii_def
      hex_digit_ascii of_char_div_16)

lemma utf_16_le_of_char: "utf_16_le (map of_char s) = utf16le_of_bytes s"
proof (induction s)
  case Nil
  show ?case by (simp add: utf_16_le_def utf16le_of_bytes_def)
next
  case (Cons c s)
  have "(of_char c :: nat) < 256" by simp
  then have "(of_char c :: nat) < 65536" by arith
  then have "utf_16_le_cp (of_char c) = [c, CHR 0x00]"
    by (simp add: utf_16_le_cp_def utf16_unit_def char_of_eq_iff)
  with Cons show ?case by (simp add: utf_16_le_def utf16le_of_bytes_def)
qed

lemma encode_utf_16_le_Str:
  "encode_utf_16_le (Str s) = (if is_ascii s then Inr (utf16le_of_bytes s) else Inl UnicodeDecodeError)"
  by (simp add: ascii_decode_def utf_16_le_of_char)

lemma d_Str: "d (Str s) = Inr (h s)"
  by (simp add: d_def upper_hexdigest)

lemma challenge_login_eq:
  "challenge_login pw t =
     (if \<not> ascii_secret pw then Inl (codec_error pw)
      else if \<not> is_ascii t then Inl UnicodeDecodeError
      else Inr (spec_encoded_pw pw t, spec_encoded_pw_unicode pw t))"
proof (cases pw)
  case (Str s)
  then show ?thesis
    by (simp del: encode_utf_16_le.simps(2)
        add: challenge_login_def d_Str encode_utf_16_le_Str spec_encoded_pw_def
        spec_encoded_pw_unicode_def)
next
  case (Unicode u)
  then show ?thesis
    by (simp del: encode_utf_16_le.simps(2)
        add: challenge_login_def d_Str d_def ascii_encode_def upper_hexdigest
        encode_utf_16_le_Str spec_encoded_pw_def spec_encoded_pw_unicode_def)
qed

section \<open>Test vectors\<close>

text \<open>The digest of the empty string (RFC 1321, appendix A.5), and the four digests of
  the derivation for the secret \<^verbatim>\<open>abc\<close> and the nonce \<^verbatim>\<open>xyz\<close>, computed from the
  definitions.\<close>

lemma md5_empty: "md5_hexdigest [] = ''d41d8cd98f00b204e9800998ecf8427e''"
  by code_simp

lemma h_abc: "h ''abc'' = ''900150983CD24FB0D6963F7D28E17F72''"
  by code_simp

lemma h_abc_utf16: "h (utf16le_of_bytes ''abc'') = ''CE1473CF80C6B3FDA8E3DFC006ADC315''"
  by code_simp

lemma h_seed: "h (''900150983CD24FB0D6963F7D28E17F72'' @ ''xyz'') = ''8C559D81E64227A3D29BD9AF94612332''"
  by code_simp

lemma h_seed_utf16:
  "h (utf16le_of_bytes (''CE1473CF80C6B3FDA8E3DFC006ADC315'' @ ''xyz'')) =
     ''F4B80AD7401BF2B20DD7C6E88662EB06''"
  by code_simp

text \<open>
  C1. The challenge derivation returns a digest pair exactly for a secret and a nonce
  that are plain ASCII (otherwise Python 2's implicit ASCII codec raises), and the pair
  it returns is \<open>encoded_pw = h(h(s) ++ t)\<close> and \<open>encoded_pw_unicode =
  h(UTF-16LE(h(UTF-16LE(s)) ++ t))\<close>, with \<open>h\<close> the upper-case hexadecimal MD5.
\<close>

theorem challenge_login_digests:
  "challenge_login pw t = Inr p \<longleftrightarrow>
     ascii_secret pw \<and> is_ascii t \<and> p = (spec_encoded_pw pw t, spec_encoded_pw_unicode pw t)"
  by (auto simp: challenge_login_eq)

theorem challenge_login_digests_witness:
  "challenge_login (Str ''abc'') ''xyz'' =
     Inr (''8C559D81E64227A3D29BD9AF94612332'', ''F4B80AD7401BF2B20DD7C6E88662EB06'')"
  using challenge_login_digests [of "Str ''abc''" "''xyz''"
      "(''8C559D81E64227A3D29BD9AF94612332'', ''F4B80AD7401BF2B20DD7C6E88662EB06'')"]
  by (simp add: is_ascii_def spec_encoded_pw_def spec_encoded_pw_unicode_def
      h_abc h_abc_utf16 h_seed h_seed_utf16 del: append.simps)

lemma length_md5_digest: "length (md5_digest b) = 16"
  by (simp add: md5_digest_def word_le_bytes_def Let_def split: prod.splits)

lemma length_h: "length (h b) = 32"
proof -
  have "length (concat (map spec_hex_byte xs)) = 2 * length xs" for xs
    by (induction xs) (simp_all add: spec_hex_byte_def)
  then show ?thesis by (simp add: h_def length_md5_digest)
qed

lemma finite_digests: "finite {xs :: string. length xs = 32}"
  using finite_lists_length_eq [of "UNIV :: char set" 32] by simp

lemma h_collides_on_suffix:
  "\<exists>n m. n \<noteq> m \<and> h (p @ replicate n c) = h (p @ replicate m c)"
proof -
  let ?f = "\<lambda>n::nat. h (p @ replicate n c)"
  have "range ?f \<subseteq> {xs. length xs = 32}"
    by (auto simp: length_h)
  then have "finite (range ?f)"
    by (rule finite_subset) (rule finite_digests)
  then have "\<not> inj ?f"
    using finite_imageD [of ?f UNIV] infinite_UNIV_nat by blast
  then show ?thesis
    unfolding inj_on_def by blast
qed

lemma is_ascii_replicate: "(of_char c :: nat) < 128 \<Longrightarrow> is_ascii (replicate n c)"
  by (simp add: is_ascii_def list_all_iff)

text \<open>
  C7 as stated fails: a digest is 32 hexadecimal digits, so among the nonces
  \<^verbatim>\<open>a\<close>, \<^verbatim>\<open>aa\<close>, \<^verbatim>\<open>aaa\<close>, ... two distinct ones give the secret \<^verbatim>\<open>abc\<close>
  the same \<open>encoded_pw\<close>.
\<close>

theorem nonce_sensitivity_fails:
  "\<not> (\<forall>t1 t2 a1 b1 a2 b2.
        t1 \<noteq> t2 \<and> challenge_login (Str ''abc'') t1 = Inr (a1, b1)
          \<and> challenge_login (Str ''abc'') t2 = Inr (a2, b2) \<longrightarrow> a1 \<noteq> a2)"
proof -
  obtain n m where nm: "n \<noteq> m"
    and eq: "h (h ''abc'' @ replicate n CHR ''a'') = h (h ''abc'' @ replicate m CHR ''a'')"
    using h_collides_on_suffix by blast
  let ?t1 = "replicate n CHR ''a''" and ?t2 = "replicate m CHR ''a''"
  have asc: "is_ascii ''abc''" "is_ascii ?t1" "is_ascii ?t2"
    by (simp_all add: is_ascii_replicate) (simp add: is_ascii_def)
  have "?t1 \<noteq> ?t2"
    using nm by (metis length_replicate)
  moreover have "challenge_login (Str ''abc'') ?t1 =
      Inr (spec_encoded_pw (Str ''abc'') ?t1, spec_encoded_pw_unicode (Str ''abc'') ?t1)"
    using asc by (simp add: challenge_login_eq)
  moreover have "challenge_login (Str ''abc'') ?t2 =
      Inr (spec_encoded_pw (Str ''abc'') ?t2, spec_encoded_pw_unicode (Str ''abc'') ?t2)"
    using asc by (simp add: challenge_login_eq)
  moreover have "spec_encoded_pw (Str ''abc'') ?t1 = spec_encoded_pw (Str ''abc'') ?t2"
    using eq by (simp add: spec_encoded_pw_def)
  ultimately show ?thesis by blast
qed

text \<open>
  C7, amended. For distinct nonces on which the derivation returns, the two
  \<open>encoded_pw\<close> are the upper-case hexadecimal MD5 digests of two distinct byte
  strings, \<open>h(s) ++ t1\<close> and \<open>h(s) ++ t2\<close>: they differ unless MD5 collides there.
\<close>

theorem nonce_distinct_seeds:
  assumes "t1 \<noteq> t2"
    and "challenge_login pw t1 = Inr (a1, b1)"
    and "challenge_login pw t2 = Inr (a2, b2)"
  shows "\<exists>x1 x2. x1 = h (raw_bytes pw) @ t1 \<and> x2 = h (raw_bytes pw) @ t2 \<and> x1 \<noteq> x2
           \<and> a1 = h x1 \<and> a2 = h x2"
  using assms by (auto simp: challenge_login_eq spec_encoded_pw_def split: if_splits)

theorem nonce_distinct_seeds_witness:
  "\<exists>x1 x2 b1 b2. x1 \<noteq> x2
      \<and> x1 = h ''abc'' @ ''xyz'' \<and> challenge_login (Str ''abc'') ''xyz'' = Inr (h x1, b1)
      \<and> x2 = h ''abc'' @ ''xyw'' \<and> challenge_login (Str ''abc'') ''xyw'' = Inr (h x2, b2)"
proof -
  have 1: "challenge_login (Str ''abc'') ''xyz'' =
      Inr (spec_encoded_pw (Str ''abc'') ''xyz'', spec_encoded_pw_unicode (Str ''abc'') ''xyz'')"
    and 2: "challenge_login (Str ''abc'') ''xyw'' =
      Inr (spec_encoded_pw (Str ''abc'') ''xyw'', spec_encoded_pw_unicode (Str ''abc'') ''xyw'')"
    by (simp_all add: challenge_login_eq is_ascii_def)
  have "''xyz'' \<noteq> ''xyw''" by simp
  from nonce_distinct_seeds [OF this 1 2] 1 2 show ?thesis by auto
qed

text \<open>
  C8. The claim wants \<open>encoded_pw_unicode\<close> to differ from \<open>encoded_pw\<close> for a secret
  with a character outside ASCII. The code does not get that far: for such a secret the
  derivation raises before either digest exists, on a \<^verbatim>\<open>str\<close> secret (what
  \<^verbatim>\<open>getpass\<close> returns) at \<^verbatim>\<open>self._password.encode('UTF-16-LE')\<close>, on a \<^verbatim>\<open>unicode\<close>
  secret at \<^verbatim>\<open>md5(self._password)\<close>. Here the secret is the letter n with tilde, as its
  UTF-8 bytes and as a code point, with the nonce \<^verbatim>\<open>xyz\<close>.
\<close>

theorem non_ascii_secret_raises:
  "challenge_login (Str [CHR 0xC3, CHR 0xB1]) ''xyz'' = Inl UnicodeDecodeError
   \<and> challenge_login (Unicode [0xF1]) ''xyz'' = Inl UnicodeEncodeError
   \<and> \<not> (\<exists>a b. challenge_login (Str [CHR 0xC3, CHR 0xB1]) ''xyz'' = Inr (a, b) \<and> a \<noteq> b)"
  by (simp add: challenge_login_eq is_ascii_def is_ascii_u_def)

section \<open>The login sequence, step by step\<close>

lemma Login_init_unfold:
  "Login_init E w base usr pw =
     (let url = urljoin E base Login_url; get = login_request E base None in
      case net E w [] get of
        (o1, j1, w1) \<Rightarrow>
          let st1 = \<lparr>world = w1, jar = j1, exchanged = [(get, o1)]\<rparr> in
          (case o1 of
             Inl m \<Rightarrow> (Inl (ExternalError m), st1)
           | Inr fp \<Rightarrow>
               (case parse E (resp_body fp) of
                  Inl m \<Rightarrow> (Inl (ExternalError m), st1)
                | Inr html \<Rightarrow>
                    (case xp_text_single html Login_xp_nonce of
                       Inl e \<Rightarrow> (Inl e, st1)
                     | Inr tok \<Rightarrow>
                         (case challenge_login pw tok of
                            Inl e \<Rightarrow> (Inl e, st1)
                          | Inr (a, b) \<Rightarrow>
                              (case urlencode (parameters usr tok a b) of
                                 Inl e \<Rightarrow> (Inl e, st1)
                               | Inr body \<Rightarrow>
                                   (let post = login_request E base (Some body) in
                                    case net E w1 j1 post of
                                      (o2, j2, w2) \<Rightarrow>
                                        let st2 = \<lparr>world = w2, jar = j2,
                                                   exchanged = [(get, o1), (post, o2)]\<rparr> in
                                        (case o2 of
                                           Inl m \<Rightarrow> (Inl (ExternalError m), st2)
                                         | Inr r \<Rightarrow>
                                             if url = resp_url r
                                             then (Inl InvalidCredentialsException, st2)
                                             else (Inr \<lparr>base_url = base, user = usr,
                                                        password = pw, nonce = tok\<rparr>, st2)))))))))"
  by (simp add: Login_init_def fetch_nonce_def opener_open_def login_request_def Let_def
      split: prod.splits sum.splits)

lemma codec_error_neq [simp]: "codec_error pw \<noteq> InvalidCredentialsException"
  by (cases pw) simp_all

lemma urlencode_items_error:
  "urlencode_items q = Inl e \<Longrightarrow> e = UnicodeEncodeError"
proof (induction q)
  case Nil
  then show ?case by simp
next
  case (Cons kv q)
  obtain k v where kv: "kv = (k, v)" by (cases kv)
  show ?case
  proof (cases v)
    case (Str s)
    with Cons kv show ?thesis by (auto split: sum.splits)
  next
    case (Unicode u)
    with Cons kv show ?thesis by (auto simp: ascii_encode_def split: sum.splits if_splits)
  qed
qed

lemma urlencode_error: "urlencode q = Inl e \<Longrightarrow> e = UnicodeEncodeError"
  by (auto simp: urlencode_def split: sum.splits dest: urlencode_items_error)

section \<open>The nonce read from the page\<close>

lemma set_strip: "set (strip P xs) \<subseteq> set xs"
proof -
  have "set (dropWhile P (rev (dropWhile P xs))) \<subseteq> set (rev (dropWhile P xs))"
    by (auto dest: set_dropWhileD)
  also have "\<dots> \<subseteq> set xs"
    by (auto dest: set_dropWhileD)
  finally show ?thesis by (simp add: strip_def)
qed

lemma strip_cong:
  assumes "\<And>x. x \<in> set xs \<Longrightarrow> P x = Q x"
  shows "strip P xs = strip Q xs"
proof -
  have 1: "dropWhile P xs = dropWhile Q xs"
    using assms by (intro dropWhile_cong) auto
  have "dropWhile P (rev (dropWhile Q xs)) = dropWhile Q (rev (dropWhile Q xs))"
    using assms by (intro dropWhile_cong) (auto dest: set_dropWhileD)
  with 1 show ?thesis by (simp add: strip_def)
qed

lemma strip_map: "strip P (map f xs) = map f (strip (P \<circ> f) xs)"
  by (simp add: strip_def dropWhile_map rev_map)

lemma of_char_char_of_ascii: "n < 128 \<Longrightarrow> of_char (char_of n) = (n::nat)"
  by (simp add: of_char_of)

lemma str_space_char_of: "n < 128 \<Longrightarrow> str_space (char_of n) = str_space_cp n"
  by (simp add: str_space_def str_space_cp_def of_char_char_of_ascii)

lemma clean_string_smart_string:
  "clean_string (smart_string v) = Inr (utf_8 (stripped_value v))"
proof (cases "is_ascii_u v")
  case True
  then have small: "\<And>n. n \<in> set v \<Longrightarrow> n < 128"
    by (simp add: is_ascii_u_def list_all_iff)
  let ?s = "strip (str_space \<circ> char_of) v"
  have eq: "?s = strip str_space_cp v"
    by (rule strip_cong) (simp add: small str_space_char_of)
  have sub: "\<And>n. n \<in> set ?s \<Longrightarrow> n < 128"
    using set_strip [of "str_space \<circ> char_of" v] small by blast
  have "is_ascii (map char_of ?s)"
    by (simp add: is_ascii_def list_all_iff sub of_char_char_of_ascii del: of_char_of)
  moreover have "map of_char (map char_of ?s) = ?s"
    by (simp add: map_idI sub of_char_char_of_ascii del: of_char_of)
  ultimately show ?thesis
    using True eq
    by (simp add: smart_string_def ascii_decode_def strip_map stripped_value_def value_space_def)
next
  case False
  then show ?thesis by (simp add: smart_string_def stripped_value_def value_space_def)
qed

lemma Login_xp_nonce_Nil:
  "filter one_time_token_input (descendant_or_self html) = [] \<Longrightarrow> Login_xp_nonce html = []"
  by (simp add: Login_xp_nonce_def)

lemma Login_xp_nonce_Cons:
  assumes "filter one_time_token_input (descendant_or_self html) = e # es"
    and "map_of (attrib e) ''value'' = Some v"
  shows "\<exists>rest. Login_xp_nonce html = smart_string v # rest"
  using assms by (simp add: Login_xp_nonce_def value_attribute_def)

lemma Login_xp_nonce_smart: "x \<in> set (Login_xp_nonce html) \<Longrightarrow> \<exists>v. x = smart_string v"
  by (auto simp: Login_xp_nonce_def value_attribute_def split: option.splits)

lemma xp_text_single_nonce_ok: "\<exists>t. xp_text_single html Login_xp_nonce = Inr t"
proof (cases "Login_xp_nonce html")
  case Nil
  then show ?thesis by (simp add: xp_text_single_def)
next
  case (Cons x xs)
  then obtain v where "x = smart_string v"
    using Login_xp_nonce_smart [of x html] by auto
  with Cons show ?thesis
    by (simp add: xp_text_single_def clean_string_smart_string)
qed

lemma strip_decomp: "\<exists>pre post. xs = pre @ strip P xs @ post"
proof -
  have "xs = takeWhile P xs @ dropWhile P xs" by simp
  moreover have "dropWhile P xs =
      rev (dropWhile P (rev (dropWhile P xs))) @ rev (takeWhile P (rev (dropWhile P xs)))"
    by (metis rev_append rev_rev_ident takeWhile_dropWhile_id)
  ultimately show ?thesis unfolding strip_def by metis
qed

lemma strip_neq:
  assumes "xs \<noteq> []" and "P (hd xs) \<or> P (last xs)"
  shows "strip P xs \<noteq> xs"
proof
  assume eq: "strip P xs = xs"
  have d: "dropWhile P (rev (dropWhile P xs)) = rev xs"
    using eq by (metis rev_rev_ident strip_def)
  show False
  proof (cases "P (hd xs)")
    case True
    then have "length (dropWhile P xs) < length xs"
      using assms(1) by (cases xs) (auto simp: le_imp_less_Suc length_dropWhile_le)
    moreover have "length (dropWhile P (rev (dropWhile P xs))) \<le> length (dropWhile P xs)"
      by (metis length_dropWhile_le length_rev)
    ultimately show False using d by (metis length_rev not_le)
  next
    case False
    then have 1: "dropWhile P xs = xs"
      using assms(1) by (cases xs) auto
    from False assms have "P (last xs)" by simp
    then have "P (hd (rev xs))"
      using assms(1) by (simp add: hd_rev)
    then have "length (dropWhile P (rev xs)) < length (rev xs)"
      using assms(1) by (cases "rev xs") (auto simp: le_imp_less_Suc length_dropWhile_le)
    with d 1 show False by simp
  qed
qed

lemma length_utf_8_cp: "0 < length (utf_8_cp n)"
  by (simp add: utf_8_cp_def)

lemma length_utf_8_append: "length (utf_8 (xs @ ys)) = length (utf_8 xs) + length (utf_8 ys)"
  by (simp add: utf_8_def)

lemma length_utf_8_pos: "xs \<noteq> [] \<Longrightarrow> 0 < length (utf_8 xs)"
  using length_utf_8_cp by (cases xs) (auto simp: utf_8_def)

lemma utf_8_strip_neq:
  assumes "strip P xs \<noteq> xs"
  shows "utf_8 (strip P xs) \<noteq> utf_8 xs"
proof -
  obtain pre post where xs: "xs = pre @ strip P xs @ post"
    using strip_decomp by blast
  with assms have "pre \<noteq> [] \<or> post \<noteq> []" by auto
  then have "0 < length (utf_8 pre) + length (utf_8 post)"
    using length_utf_8_pos by (metis add_gr_0)
  moreover have "length (utf_8 xs) =
      length (utf_8 pre) + length (utf_8 (strip P xs)) + length (utf_8 post)"
    using xs by (metis length_utf_8_append add.assoc)
  ultimately show ?thesis by auto
qed

lemma challenge_login_error:
  "challenge_login pw t \<noteq> Inl InvalidCredentialsException"
  by (auto simp: challenge_login_eq split: if_splits)

lemma xp_nonce_no_error: "xp_text_single html Login_xp_nonce \<noteq> Inl e"
  using xp_text_single_nonce_ok [of html] by auto

lemma urlencode_no_credentials_error:
  "urlencode q \<noteq> Inl InvalidCredentialsException"
  using urlencode_error [of q InvalidCredentialsException] by auto

lemma map_of_parameters:
  "map_of (parameters usr tok a b) =
     [''user_id'' \<mapsto> usr, ''password'' \<mapsto> Str [],
      ''login'' \<mapsto> Str (''Iniciar sesi'' @ [CHR 0xC3, CHR 0xB3] @ ''n''),
      ''action'' \<mapsto> Str ''login'', ''remote-user'' \<mapsto> Str [],
      ''new_loc'' \<mapsto> Str ''/webapps/portal/frameset.jsp'', ''auth_type'' \<mapsto> Str [],
      ''one_time_token'' \<mapsto> Str tok, ''encoded_pw'' \<mapsto> Str a,
      ''encoded_pw_unicode'' \<mapsto> Str b]"
  by (rule ext) (simp add: parameters_def Login_new_loc_def)

lemma fetch_nonce_unfold:
  "fetch_nonce E \<lparr>world = w, jar = [], exchanged = []\<rparr> base =
     (case net E w [] (login_request E base None) of
        (o1, j1, w1) \<Rightarrow>
          ((case o1 of
              Inl m \<Rightarrow> Inl (ExternalError m)
            | Inr fp \<Rightarrow>
                (case parse E (resp_body fp) of
                   Inl m \<Rightarrow> Inl (ExternalError m)
                 | Inr html \<Rightarrow> xp_text_single html Login_xp_nonce)),
           \<lparr>world = w1, jar = j1, exchanged = [(login_request E base None, o1)]\<rparr>))"
  by (simp add: fetch_nonce_def opener_open_def login_request_def Let_def
      split: prod.splits sum.splits)

lemma parameters_off_digests:
  "k \<noteq> ''encoded_pw'' \<Longrightarrow> k \<noteq> ''encoded_pw_unicode'' \<Longrightarrow>
     map_of (parameters usr tok a b) k = map_of (parameters usr tok a' b') k"
  by (simp add: parameters_def)

lemma urlencode_parameters_ok:
  assumes "py_str usr = Inr u"
  shows "\<exists>body. urlencode (parameters usr tok a b) = Inr body"
  using assms by (simp add: urlencode_def parameters_def)

section \<open>Runs against the mock environment\<close>

lemma login_page_inputs:
  "filter one_time_token_input (descendant_or_self login_page) =
     [Element ''input''
        [(''type'', map of_char ''hidden''), (''name'', map of_char ''one_time_token''),
         (''value'', [32, 78, 48, 78, 67, 69, 32])] []]"
  by (simp add: login_page_def one_time_token_input_def)

lemma page_without_token_inputs:
  "filter one_time_token_input (descendant_or_self page_without_token) = []"
  by (simp add: page_without_token_def one_time_token_input_def)

lemma mock_stripped: "utf_8 (stripped_value [32, 78, 48, 78, 67, 69, 32]) = ''N0NCE''"
  by (simp add: stripped_value_def value_space_def is_ascii_u_def strip_def str_space_cp_def
      utf_8_def utf_8_cp_def char_of_eq_iff)

lemma mock_nonce: "xp_text_single login_page Login_xp_nonce = Inr ''N0NCE''"
  by (simp add: xp_text_single_def Login_xp_nonce_def login_page_inputs value_attribute_def
      clean_string_smart_string mock_stripped)

lemma mock_get:
  "net (mock_env page redirect) w j (login_request (mock_env page redirect) base None) =
     (Inr \<lparr>resp_url = base @ ''/webapps/login/'', resp_body = ''login page''\<rparr>,
      (''JSESSIONID'', ''anonymous'') # j, Suc w)"
  by (simp add: mock_env_def mock_net_def login_request_def mock_urljoin_def Login_url_def)

lemma mock_post:
  "net (mock_env page redirect) w j (login_request (mock_env page redirect) base (Some body)) =
     (Inr \<lparr>resp_url = (if redirect then ''http://example.test/webapps/portal/frameset.jsp''
                        else base @ ''/webapps/login/''),
           resp_body = []\<rparr>,
      (''session_id'', ''1'') # j, Suc w)"
  by (simp add: mock_env_def mock_net_def login_request_def mock_urljoin_def Login_url_def)

lemma mock_parse: "parse (mock_env page redirect) b = Inr page"
  by (simp add: mock_env_def)

lemma mock_urljoin_login: "urljoin (mock_env page redirect) base Login_url = base @ ''/webapps/login/''"
  by (simp add: mock_env_def mock_urljoin_def Login_url_def)

lemma mock_fetch:
  "fetch_nonce (mock_env login_page redirect) \<lparr>world = w, jar = [], exchanged = []\<rparr> base =
     (Inr ''N0NCE'',
      \<lparr>world = Suc w, jar = [(''JSESSIONID'', ''anonymous'')],
       exchanged = [(login_request (mock_env login_page redirect) base None,
                     Inr \<lparr>resp_url = base @ ''/webapps/login/'', resp_body = ''login page''\<rparr>)]\<rparr>)"
  by (simp add: fetch_nonce_unfold mock_get mock_parse mock_nonce)

lemma mock_run:
  assumes "ascii_secret pw"
    and "urlencode (parameters usr ''N0NCE'' (spec_encoded_pw pw ''N0NCE'')
           (spec_encoded_pw_unicode pw ''N0NCE'')) = Inr body"
  shows "Login_init (mock_env login_page redirect) w ''http://example.test'' usr pw =
     ((if redirect
       then Inr \<lparr>base_url = ''http://example.test'', user = usr, password = pw,
                 nonce = ''N0NCE''\<rparr>
       else Inl InvalidCredentialsException),
      \<lparr>world = Suc (Suc w),
       jar = [(''session_id'', ''1''), (''JSESSIONID'', ''anonymous'')],
       exchanged =
         [(login_request (mock_env login_page redirect) ''http://example.test'' None,
           Inr \<lparr>resp_url = ''http://example.test/webapps/login/'', resp_body = ''login page''\<rparr>),
          (login_request (mock_env login_page redirect) ''http://example.test'' (Some body),
           Inr \<lparr>resp_url = (if redirect then ''http://example.test/webapps/portal/frameset.jsp''
                             else ''http://example.test/webapps/login/''),
                 resp_body = []\<rparr>)]\<rparr>)"
  unfolding Login_init_unfold
  using assms
  by (simp add: Let_def mock_get mock_post mock_parse mock_nonce mock_urljoin_login
      challenge_login_eq is_ascii_def)

lemma mock_body:
  "\<exists>body. urlencode (parameters (Str u) t a b) = Inr body"
  by (rule urlencode_parameters_ok [of _ u]) simp

section \<open>The outcome of a login\<close>

text \<open>
  C2. A call raises \<^verbatim>\<open>InvalidCredentialsException\<close> exactly when the POST to the login
  URL was answered and the final URL of the answer equals the login URL (the relative
  path joined to the base URL); it returns a session exactly when the POST was answered
  and the final URL differs, and then the cookie jar is the one the POST exchange left.
\<close>

theorem login_outcome:
  assumes run: "Login_init E w base usr pw = (res, st)"
  shows "(res = Inl InvalidCredentialsException \<longleftrightarrow>
            (\<exists>g body r. exchanged st = [g, (login_request E base (Some body), Inr r)]
               \<and> resp_url r = urljoin E base Login_url))
       \<and> ((\<exists>session. res = Inr session) \<longleftrightarrow>
            (\<exists>g o1 j1 w1 body r.
               exchanged st = [(g, o1), (login_request E base (Some body), Inr r)]
               \<and> resp_url r \<noteq> urljoin E base Login_url
               \<and> net E w [] g = (o1, j1, w1)
               \<and> net E w1 j1 (login_request E base (Some body)) = (Inr r, jar st, world st)))"
  using run unfolding Login_init_unfold
  by (auto simp: Let_def xp_nonce_no_error urlencode_no_credentials_error
      challenge_login_error split: prod.splits sum.splits if_splits)

theorem login_outcome_witness:
  "fst (Login_init (mock_env login_page False) 0 ''http://example.test'' (Str ''user'')
         (Str ''abc'')) = Inl InvalidCredentialsException
   \<and> (\<exists>session. fst (Login_init (mock_env login_page True) 0 ''http://example.test''
         (Str ''user'') (Str ''abc'')) = Inr session)"
proof -
  obtain body where body: "urlencode (parameters (Str ''user'') ''N0NCE''
      (spec_encoded_pw (Str ''abc'') ''N0NCE'') (spec_encoded_pw_unicode (Str ''abc'') ''N0NCE''))
      = Inr body"
    using mock_body by blast
  have asc: "ascii_secret (Str ''abc'')" by (simp add: is_ascii_def)
  let ?rejected = "Login_init (mock_env login_page False) 0 ''http://example.test''
      (Str ''user'') (Str ''abc'')"
  let ?accepted = "Login_init (mock_env login_page True) 0 ''http://example.test''
      (Str ''user'') (Str ''abc'')"
  have "\<exists>g body r. exchanged (snd ?rejected) =
        [g, (login_request (mock_env login_page False) ''http://example.test'' (Some body), Inr r)]
      \<and> resp_url r = urljoin (mock_env login_page False) ''http://example.test'' Login_url"
    by (auto simp: mock_run [OF asc body] mock_urljoin_login)
  with login_outcome [of "mock_env login_page False" 0 "''http://example.test''"
      "Str ''user''" "Str ''abc''" "fst ?rejected" "snd ?rejected"]
  have 1: "fst ?rejected = Inl InvalidCredentialsException" by simp
  have "\<exists>g o1 j1 w1 body r.
      exchanged (snd ?accepted) =
        [(g, o1), (login_request (mock_env login_page True) ''http://example.test'' (Some body), Inr r)]
      \<and> resp_url r \<noteq> urljoin (mock_env login_page True) ''http://example.test'' Login_url
      \<and> net (mock_env login_page True) 0 [] g = (o1, j1, w1)
      \<and> net (mock_env login_page True) w1 j1
            (login_request (mock_env login_page True) ''http://example.test'' (Some body)) =
          (Inr r, jar (snd ?accepted), world (snd ?accepted))"
    by (auto simp: mock_run [OF asc body] mock_urljoin_login mock_get mock_post)
  with login_outcome [of "mock_env login_page True" 0 "''http://example.test''"
      "Str ''user''" "Str ''abc''" "fst ?accepted" "snd ?accepted"]
  have 2: "\<exists>session. fst ?accepted = Inr session" by simp
  from 1 2 show ?thesis by blast
qed




section \<open>The submitted form\<close>

text \<open>
  C4. Whenever a login attempt issues its POST, the body is the encoding of a
  dictionary with exactly ten fields: \<^verbatim>\<open>user_id\<close> (the user name), \<^verbatim>\<open>password\<close>
  (empty), \<^verbatim>\<open>login\<close> (the fixed label), \<^verbatim>\<open>action=login\<close>, \<^verbatim>\<open>remote-user\<close> (empty),
  \<^verbatim>\<open>new_loc\<close> (the portal path), \<^verbatim>\<open>auth_type\<close> (empty), \<^verbatim>\<open>one_time_token\<close> (the
  fetched nonce), \<^verbatim>\<open>encoded_pw\<close> and \<^verbatim>\<open>encoded_pw_unicode\<close> (the digests).
\<close>

theorem submitted_form:
  assumes run: "Login_init E w base usr pw = (res, st)"
    and post: "exchanged st = [x, (q, o2)]"
  shows "\<exists>tok encoded_pw encoded_pw_u body.
      fst (fetch_nonce E \<lparr>world = w, jar = [], exchanged = []\<rparr> base) = Inr tok
    \<and> challenge_login pw tok = Inr (encoded_pw, encoded_pw_u)
    \<and> urlencode (parameters usr tok encoded_pw encoded_pw_u) = Inr body
    \<and> q = \<lparr>req_url = urljoin E base Login_url, req_data = Some body\<rparr>
    \<and> map_of (parameters usr tok encoded_pw encoded_pw_u) =
        [''user_id'' \<mapsto> usr, ''password'' \<mapsto> Str [],
         ''login'' \<mapsto> Str (''Iniciar sesi'' @ [CHR 0xC3, CHR 0xB3] @ ''n''),
         ''action'' \<mapsto> Str ''login'', ''remote-user'' \<mapsto> Str [],
         ''new_loc'' \<mapsto> Str ''/webapps/portal/frameset.jsp'', ''auth_type'' \<mapsto> Str [],
         ''one_time_token'' \<mapsto> Str tok, ''encoded_pw'' \<mapsto> Str encoded_pw,
         ''encoded_pw_unicode'' \<mapsto> Str encoded_pw_u]
    \<and> length (parameters usr tok encoded_pw encoded_pw_u) = 10"
  using run post unfolding Login_init_unfold fetch_nonce_unfold
  by (auto simp: Let_def map_of_parameters login_request_def
      split: prod.splits sum.splits if_splits) (simp_all add: parameters_def)

theorem submitted_form_witness:
  "\<exists>body x o2.
      exchanged (snd (Login_init (mock_env login_page True) 0 ''http://example.test''
          (Str ''user'') (Str ''abc''))) =
        [x, (\<lparr>req_url = ''http://example.test/webapps/login/'', req_data = Some body\<rparr>, o2)]
    \<and> urlencode (parameters (Str ''user'') ''N0NCE''
          (spec_encoded_pw (Str ''abc'') ''N0NCE'')
          (spec_encoded_pw_unicode (Str ''abc'') ''N0NCE'')) = Inr body"
proof -
  obtain body where body: "urlencode (parameters (Str ''user'') ''N0NCE''
      (spec_encoded_pw (Str ''abc'') ''N0NCE'') (spec_encoded_pw_unicode (Str ''abc'') ''N0NCE''))
      = Inr body"
    using mock_body by blast
  have asc: "ascii_secret (Str ''abc'')" by (simp add: is_ascii_def)
  let ?run = "Login_init (mock_env login_page True) 0 ''http://example.test''
      (Str ''user'') (Str ''abc'')"
  obtain x q o2 where ex: "exchanged (snd ?run) = [x, (q, o2)]"
    by (simp add: mock_run [OF asc body])
  from submitted_form [of "mock_env login_page True" 0 "''http://example.test''"
      "Str ''user''" "Str ''abc''" "fst ?run" "snd ?run" x q o2] ex
  obtain tok a b body' where
    "fst (fetch_nonce (mock_env login_page True) \<lparr>world = 0, jar = [], exchanged = []\<rparr>
        ''http://example.test'') = Inr tok"
    "challenge_login (Str ''abc'') tok = Inr (a, b)"
    "urlencode (parameters (Str ''user'') tok a b) = Inr body'"
    "q = \<lparr>req_url = urljoin (mock_env login_page True) ''http://example.test'' Login_url,
          req_data = Some body'\<rparr>"
    by auto
  then have "tok = ''N0NCE''"
    and "a = spec_encoded_pw (Str ''abc'') ''N0NCE''"
    and "b = spec_encoded_pw_unicode (Str ''abc'') ''N0NCE''"
    and "q = \<lparr>req_url = ''http://example.test/webapps/login/'', req_data = Some body'\<rparr>"
    and "urlencode (parameters (Str ''user'') tok a b) = Inr body'"
    by (auto simp: mock_fetch challenge_login_eq mock_urljoin_login split: if_splits)
  with ex show ?thesis by auto
qed

text \<open>
  C5. The requests of a login attempt carry the secret only as the two digests: the GET
  is made before the secret is read and does not depend on it; the POST body encodes
  the form of the user name, the fetched nonce and the two digests, whose
  \<^verbatim>\<open>password\<close> field is empty and whose fields other than \<^verbatim>\<open>encoded_pw\<close> and
  \<^verbatim>\<open>encoded_pw_unicode\<close> are the same whatever the digests.
\<close>

theorem secret_only_in_digests:
  assumes run: "Login_init E w base usr pw = (res, st)"
  shows "(\<exists>o1 j1 w1.
            net E w [] (login_request E base None) = (o1, j1, w1)
          \<and> (exchanged st = [(login_request E base None, o1)]
             \<or> (\<exists>tok a b body o2.
                  exchanged st =
                    [(login_request E base None, o1), (login_request E base (Some body), o2)]
                \<and> fst (fetch_nonce E \<lparr>world = w, jar = [], exchanged = []\<rparr> base) = Inr tok
                \<and> challenge_login pw tok = Inr (a, b)
                \<and> urlencode (parameters usr tok a b) = Inr body)))
       \<and> (\<forall>tok a b. map_of (parameters usr tok a b) ''password'' = Some (Str []))
       \<and> (\<forall>tok k a b a' b'. k \<noteq> ''encoded_pw'' \<and> k \<noteq> ''encoded_pw_unicode'' \<longrightarrow>
             map_of (parameters usr tok a b) k = map_of (parameters usr tok a' b') k)"
proof -
  have pw_field: "map_of (parameters usr tok a b) ''password'' = Some (Str [])" for tok a b
    by (simp add: parameters_def)
  have "\<exists>o1 j1 w1.
            net E w [] (login_request E base None) = (o1, j1, w1)
          \<and> (exchanged st = [(login_request E base None, o1)]
             \<or> (\<exists>tok a b body o2.
                  exchanged st =
                    [(login_request E base None, o1), (login_request E base (Some body), o2)]
                \<and> fst (fetch_nonce E \<lparr>world = w, jar = [], exchanged = []\<rparr> base) = Inr tok
                \<and> challenge_login pw tok = Inr (a, b)
                \<and> urlencode (parameters usr tok a b) = Inr body))"
    using run unfolding Login_init_unfold fetch_nonce_unfold
    by (auto simp: Let_def split: prod.splits sum.splits if_splits)
  with pw_field parameters_off_digests show ?thesis by blast
qed

theorem secret_only_in_digests_witness:
  "\<exists>o1 body o2.
      exchanged (snd (Login_init (mock_env login_page True) 0 ''http://example.test''
          (Str ''user'') (Str ''abc''))) =
        [(\<lparr>req_url = ''http://example.test/webapps/login/'', req_data = None\<rparr>, o1),
         (\<lparr>req_url = ''http://example.test/webapps/login/'', req_data = Some body\<rparr>, o2)]
    \<and> urlencode (parameters (Str ''user'') ''N0NCE''
          (spec_encoded_pw (Str ''abc'') ''N0NCE'')
          (spec_encoded_pw_unicode (Str ''abc'') ''N0NCE'')) = Inr body
    \<and> map_of (parameters (Str ''user'') ''N0NCE''
          (spec_encoded_pw (Str ''abc'') ''N0NCE'')
          (spec_encoded_pw_unicode (Str ''abc'') ''N0NCE'')) ''password'' = Some (Str [])"
proof -
  obtain body where body: "urlencode (parameters (Str ''user'') ''N0NCE''
      (spec_encoded_pw (Str ''abc'') ''N0NCE'') (spec_encoded_pw_unicode (Str ''abc'') ''N0NCE''))
      = Inr body"
    using mock_body by blast
  have asc: "ascii_secret (Str ''abc'')" by (simp add: is_ascii_def)
  let ?E = "mock_env login_page True"
  let ?run = "Login_init ?E 0 ''http://example.test'' (Str ''user'') (Str ''abc'')"
  have two: "length (exchanged (snd ?run)) = 2"
    by (simp add: mock_run [OF asc body])
  note inst = secret_only_in_digests [of "?E" 0 "''http://example.test''" "Str ''user''"
      "Str ''abc''" "fst ?run" "snd ?run"]
  from inst have pw_field: "map_of (parameters (Str ''user'') ''N0NCE''
          (spec_encoded_pw (Str ''abc'') ''N0NCE'')
          (spec_encoded_pw_unicode (Str ''abc'') ''N0NCE'')) ''password'' = Some (Str [])"
    by simp
  from inst obtain o1 where alt:
    "exchanged (snd ?run) = [(login_request ?E ''http://example.test'' None, o1)]
     \<or> (\<exists>tok a b body' o2.
          exchanged (snd ?run) =
            [(login_request ?E ''http://example.test'' None, o1),
             (login_request ?E ''http://example.test'' (Some body'), o2)]
        \<and> fst (fetch_nonce ?E \<lparr>world = 0, jar = [], exchanged = []\<rparr> ''http://example.test'')
            = Inr tok
        \<and> challenge_login (Str ''abc'') tok = Inr (a, b)
        \<and> urlencode (parameters (Str ''user'') tok a b) = Inr body')"
    by auto
  from two have "exchanged (snd ?run) \<noteq> [(login_request ?E ''http://example.test'' None, o1)]"
    by auto
  with alt obtain tok a b body' o2 where
    "exchanged (snd ?run) =
       [(login_request ?E ''http://example.test'' None, o1),
        (login_request ?E ''http://example.test'' (Some body'), o2)]"
    "fst (fetch_nonce ?E \<lparr>world = 0, jar = [], exchanged = []\<rparr> ''http://example.test'') = Inr tok"
    "challenge_login (Str ''abc'') tok = Inr (a, b)"
    "urlencode (parameters (Str ''user'') tok a b) = Inr body'"
    by blast
  with pw_field show ?thesis
    by (auto simp: mock_fetch challenge_login_eq login_request_def mock_urljoin_login
        split: if_splits)
qed

text \<open>
  C6. The digests a login attempt submits are a function of the secret and the
  fetched nonce alone: two attempts with the same secret that fetched the same nonce,
  in any two environments, worlds, base URLs and user names, submit the same
  \<^verbatim>\<open>encoded_pw\<close> and the same \<^verbatim>\<open>encoded_pw_unicode\<close>.
\<close>

theorem digests_deterministic:
  assumes run1: "Login_init E w base usr pw = (res, st)"
    and run2: "Login_init E' w' base' usr' pw = (res', st')"
    and nonce1: "fst (fetch_nonce E \<lparr>world = w, jar = [], exchanged = []\<rparr> base) = Inr tok"
    and nonce2: "fst (fetch_nonce E' \<lparr>world = w', jar = [], exchanged = []\<rparr> base') = Inr tok"
    and post1: "exchanged st = [x, (q, o2)]"
    and post2: "exchanged st' = [x', (q', o2')]"
  shows "\<exists>a b body body'.
      challenge_login pw tok = Inr (a, b)
    \<and> urlencode (parameters usr tok a b) = Inr body \<and> req_data q = Some body
    \<and> urlencode (parameters usr' tok a b) = Inr body' \<and> req_data q' = Some body'
    \<and> map_of (parameters usr tok a b) ''encoded_pw'' = Some (Str a)
    \<and> map_of (parameters usr' tok a b) ''encoded_pw'' = Some (Str a)
    \<and> map_of (parameters usr tok a b) ''encoded_pw_unicode'' = Some (Str b)
    \<and> map_of (parameters usr' tok a b) ''encoded_pw_unicode'' = Some (Str b)"
proof -
  obtain t1 a b body where 1: "fst (fetch_nonce E \<lparr>world = w, jar = [], exchanged = []\<rparr> base) = Inr t1"
    "challenge_login pw t1 = Inr (a, b)" "urlencode (parameters usr t1 a b) = Inr body"
    "q = \<lparr>req_url = urljoin E base Login_url, req_data = Some body\<rparr>"
    using run1 post1 unfolding Login_init_unfold fetch_nonce_unfold
    by (auto simp: Let_def login_request_def split: prod.splits sum.splits if_splits)
  obtain t2 a' b' body' where 2: "fst (fetch_nonce E' \<lparr>world = w', jar = [], exchanged = []\<rparr> base') = Inr t2"
    "challenge_login pw t2 = Inr (a', b')" "urlencode (parameters usr' t2 a' b') = Inr body'"
    "q' = \<lparr>req_url = urljoin E' base' Login_url, req_data = Some body'\<rparr>"
    using run2 post2 unfolding Login_init_unfold fetch_nonce_unfold
    by (auto simp: Let_def login_request_def split: prod.splits sum.splits if_splits)
  from 1 2 nonce1 nonce2 have "t1 = tok" "t2 = tok" by simp_all
  with 1 2 show ?thesis by (auto simp: parameters_def)
qed

theorem digests_deterministic_witness:
  "\<exists>a b body body'.
      challenge_login (Str ''abc'') ''N0NCE'' = Inr (a, b)
    \<and> urlencode (parameters (Str ''user'') ''N0NCE'' a b) = Inr body
    \<and> urlencode (parameters (Str ''root'') ''N0NCE'' a b) = Inr body'
    \<and> map (req_data \<circ> fst) (exchanged (snd (Login_init (mock_env login_page True) 0
          ''http://example.test'' (Str ''user'') (Str ''abc'')))) = [None, Some body]
    \<and> map (req_data \<circ> fst) (exchanged (snd (Login_init (mock_env login_page False) 7
          ''http://example.test'' (Str ''root'') (Str ''abc'')))) = [None, Some body']"
proof -
  let ?a = "spec_encoded_pw (Str ''abc'') ''N0NCE''"
  let ?b = "spec_encoded_pw_unicode (Str ''abc'') ''N0NCE''"
  obtain body1 where body1: "urlencode (parameters (Str ''user'') ''N0NCE'' ?a ?b) = Inr body1"
    using mock_body by blast
  obtain body2 where body2: "urlencode (parameters (Str ''root'') ''N0NCE'' ?a ?b) = Inr body2"
    using mock_body by blast
  have asc: "ascii_secret (Str ''abc'')" by (simp add: is_ascii_def)
  let ?E1 = "mock_env login_page True" and ?E2 = "mock_env login_page False"
  let ?run1 = "Login_init ?E1 0 ''http://example.test'' (Str ''user'') (Str ''abc'')"
  let ?run2 = "Login_init ?E2 7 ''http://example.test'' (Str ''root'') (Str ''abc'')"
  obtain x q o2 where ex1: "exchanged (snd ?run1) = [x, (q, o2)]"
    and x: "req_data (fst x) = None"
    by (simp add: mock_run [OF asc body1] login_request_def)
  obtain x' q' o2' where ex2: "exchanged (snd ?run2) = [x', (q', o2')]"
    and x': "req_data (fst x') = None"
    by (simp add: mock_run [OF asc body2] login_request_def)
  have n1: "fst (fetch_nonce ?E1 \<lparr>world = 0, jar = [], exchanged = []\<rparr> ''http://example.test'')
      = Inr ''N0NCE''"
    by (simp add: mock_fetch)
  have n2: "fst (fetch_nonce ?E2 \<lparr>world = 7, jar = [], exchanged = []\<rparr> ''http://example.test'')
      = Inr ''N0NCE''"
    by (simp add: mock_fetch)
  from digests_deterministic [of "?E1" 0 "''http://example.test''" "Str ''user''" "Str ''abc''"
      "fst ?run1" "snd ?run1" "?E2" 7 "''http://example.test''" "Str ''root''"
      "fst ?run2" "snd ?run2" "''N0NCE''" x q o2 x' q' o2'] n1 n2 ex1 ex2
  obtain a b body body' where
    "challenge_login (Str ''abc'') ''N0NCE'' = Inr (a, b)"
    "urlencode (parameters (Str ''user'') ''N0NCE'' a b) = Inr body" "req_data q = Some body"
    "urlencode (parameters (Str ''root'') ''N0NCE'' a b) = Inr body'" "req_data q' = Some body'"
    by auto
  with ex1 ex2 x x' show ?thesis by auto
qed

section \<open>The nonce in the login sequence\<close>

text \<open>
  C3. When the fetched page has no \<^verbatim>\<open>input\<close> element named \<^verbatim>\<open>one_time_token\<close>,
  the nonce fetch returns the empty string and raises nothing; the digest derivation
  accepts the empty nonce (it returns for every plain ASCII secret), the form is
  submitted, and the call ends at the final check: it raises
  \<^verbatim>\<open>InvalidCredentialsException\<close> or returns, unless the POST itself fails.
\<close>

theorem empty_nonce:
  assumes get: "net E w [] (login_request E base None) = (Inr fp, j1, w1)"
    and parse: "parse E (resp_body fp) = Inr html"
    and none: "filter one_time_token_input (descendant_or_self html) = []"
  shows "fetch_nonce E \<lparr>world = w, jar = [], exchanged = []\<rparr> base =
           (Inr [], \<lparr>world = w1, jar = j1,
                     exchanged = [(login_request E base None, Inr fp)]\<rparr>)
    \<and> (ascii_secret pw \<longrightarrow>
          challenge_login pw [] = Inr (spec_encoded_pw pw [], spec_encoded_pw_unicode pw []))
    \<and> (ascii_secret pw \<and> (\<exists>u. py_str usr = Inr u) \<longrightarrow>
          (\<exists>body o2 j2 w2.
              urlencode (parameters usr [] (spec_encoded_pw pw []) (spec_encoded_pw_unicode pw []))
                = Inr body
            \<and> net E w1 j1 (login_request E base (Some body)) = (o2, j2, w2)
            \<and> Login_init E w base usr pw =
                ((case o2 of
                    Inl m \<Rightarrow> Inl (ExternalError m)
                  | Inr r \<Rightarrow>
                      if urljoin E base Login_url = resp_url r
                      then Inl InvalidCredentialsException
                      else Inr \<lparr>base_url = base, user = usr, password = pw, nonce = []\<rparr>),
                 \<lparr>world = w2, jar = j2,
                  exchanged = [(login_request E base None, Inr fp),
                               (login_request E base (Some body), o2)]\<rparr>)))"
proof -
  have tok: "xp_text_single html Login_xp_nonce = Inr []"
    using none by (simp add: xp_text_single_def Login_xp_nonce_Nil)
  have 1: "fetch_nonce E \<lparr>world = w, jar = [], exchanged = []\<rparr> base =
           (Inr [], \<lparr>world = w1, jar = j1,
                     exchanged = [(login_request E base None, Inr fp)]\<rparr>)"
    using get parse tok by (simp add: fetch_nonce_unfold)
  have 2: "challenge_login pw [] = Inr (spec_encoded_pw pw [], spec_encoded_pw_unicode pw [])"
    if "ascii_secret pw"
    using that by (simp add: challenge_login_eq)
  have 3: "\<exists>body o2 j2 w2.
              urlencode (parameters usr [] (spec_encoded_pw pw []) (spec_encoded_pw_unicode pw []))
                = Inr body
            \<and> net E w1 j1 (login_request E base (Some body)) = (o2, j2, w2)
            \<and> Login_init E w base usr pw =
                ((case o2 of
                    Inl m \<Rightarrow> Inl (ExternalError m)
                  | Inr r \<Rightarrow>
                      if urljoin E base Login_url = resp_url r
                      then Inl InvalidCredentialsException
                      else Inr \<lparr>base_url = base, user = usr, password = pw, nonce = []\<rparr>),
                 \<lparr>world = w2, jar = j2,
                  exchanged = [(login_request E base None, Inr fp),
                               (login_request E base (Some body), o2)]\<rparr>)"
    if asc: "ascii_secret pw" and enc: "\<exists>u. py_str usr = Inr u"
  proof -
    obtain body where body: "urlencode (parameters usr [] (spec_encoded_pw pw [])
        (spec_encoded_pw_unicode pw [])) = Inr body"
      using enc urlencode_parameters_ok by blast
    obtain o2 j2 w2 where post: "net E w1 j1 (login_request E base (Some body)) = (o2, j2, w2)"
      by (cases "net E w1 j1 (login_request E base (Some body))") auto
    have "Login_init E w base usr pw =
                ((case o2 of
                    Inl m \<Rightarrow> Inl (ExternalError m)
                  | Inr r \<Rightarrow>
                      if urljoin E base Login_url = resp_url r
                      then Inl InvalidCredentialsException
                      else Inr \<lparr>base_url = base, user = usr, password = pw, nonce = []\<rparr>),
                 \<lparr>world = w2, jar = j2,
                  exchanged = [(login_request E base None, Inr fp),
                               (login_request E base (Some body), o2)]\<rparr>)"
      unfolding Login_init_unfold
      using get parse tok 2 [OF asc] body post
      by (simp add: Let_def split: sum.splits)
    with body post show ?thesis by blast
  qed
  from 1 2 3 show ?thesis by blast
qed

theorem empty_nonce_witness:
  "fetch_nonce (mock_env page_without_token False) \<lparr>world = 0, jar = [], exchanged = []\<rparr>
      ''http://example.test'' =
     (Inr [],
      \<lparr>world = 1, jar = [(''JSESSIONID'', ''anonymous'')],
       exchanged =
         [(\<lparr>req_url = ''http://example.test/webapps/login/'', req_data = None\<rparr>,
           Inr \<lparr>resp_url = ''http://example.test/webapps/login/'', resp_body = ''login page''\<rparr>)]\<rparr>)
   \<and> challenge_login (Str ''abc'') [] =
       Inr (spec_encoded_pw (Str ''abc'') [], spec_encoded_pw_unicode (Str ''abc'') [])
   \<and> fst (Login_init (mock_env page_without_token False) 0 ''http://example.test''
         (Str ''user'') (Str ''abc'')) = Inl InvalidCredentialsException
   \<and> length (exchanged (snd (Login_init (mock_env page_without_token False) 0
         ''http://example.test'' (Str ''user'') (Str ''abc'')))) = 2"
proof -
  let ?E = "mock_env page_without_token False"
  have asc: "ascii_secret (Str ''abc'')" by (simp add: is_ascii_def)
  have usr: "\<exists>u. py_str (Str ''user'') = Inr u" by simp
  note inst = empty_nonce [of "?E" 0 "''http://example.test''" _ _ _ page_without_token
      "Str ''abc''" "Str ''user''", OF mock_get mock_parse page_without_token_inputs]
  from inst have 1: "fetch_nonce ?E \<lparr>world = 0, jar = [], exchanged = []\<rparr> ''http://example.test'' =
     (Inr [],
      \<lparr>world = 1, jar = [(''JSESSIONID'', ''anonymous'')],
       exchanged =
         [(\<lparr>req_url = ''http://example.test/webapps/login/'', req_data = None\<rparr>,
           Inr \<lparr>resp_url = ''http://example.test/webapps/login/'', resp_body = ''login page''\<rparr>)]\<rparr>)"
    by (simp add: login_request_def mock_urljoin_login)
  from inst asc have 2: "challenge_login (Str ''abc'') [] =
       Inr (spec_encoded_pw (Str ''abc'') [], spec_encoded_pw_unicode (Str ''abc'') [])"
    by blast
  from inst asc usr obtain body o2 j2 w2 where
    post: "net ?E (Suc 0) [(''JSESSIONID'', ''anonymous'')]
        (login_request ?E ''http://example.test'' (Some body)) = (o2, j2, w2)"
    and run: "Login_init ?E 0 ''http://example.test'' (Str ''user'') (Str ''abc'') =
                ((case o2 of
                    Inl m \<Rightarrow> Inl (ExternalError m)
                  | Inr r \<Rightarrow>
                      if urljoin ?E ''http://example.test'' Login_url = resp_url r
                      then Inl InvalidCredentialsException
                      else Inr \<lparr>base_url = ''http://example.test'', user = Str ''user'',
                                password = Str ''abc'', nonce = []\<rparr>),
                 \<lparr>world = w2, jar = j2,
                  exchanged = [(login_request ?E ''http://example.test'' None,
                      Inr \<lparr>resp_url = ''http://example.test/webapps/login/'',
                            resp_body = ''login page''\<rparr>),
                               (login_request ?E ''http://example.test'' (Some body), o2)]\<rparr>)"
    by auto
  from post have "o2 = Inr \<lparr>resp_url = ''http://example.test/webapps/login/'', resp_body = []\<rparr>"
    by (simp add: mock_post)
  with run have 3: "fst (Login_init ?E 0 ''http://example.test'' (Str ''user'') (Str ''abc'')) =
      Inl InvalidCredentialsException"
    and 4: "length (exchanged (snd (Login_init ?E 0 ''http://example.test'' (Str ''user'')
      (Str ''abc'')))) = 2"
    by (simp_all add: mock_urljoin_login)
  from 1 2 3 4 show ?thesis by blast
qed

text \<open>
  C10. When the first \<^verbatim>\<open>input\<close> element named \<^verbatim>\<open>one_time_token\<close> has a
  \<^verbatim>\<open>value\<close> attribute that starts or ends with whitespace, the nonce is the UTF-8
  encoding of the stripped value, which differs from the encoding of the raw value;
  this nonce goes into the digest derivation and into the \<^verbatim>\<open>one_time_token\<close> field
  of the submitted form.
\<close>

theorem nonce_is_stripped:
  assumes get: "net E w [] (login_request E base None) = (Inr fp, j1, w1)"
    and parse: "parse E (resp_body fp) = Inr html"
    and first: "filter one_time_token_input (descendant_or_self html) = e # es"
    and val: "map_of (attrib e) ''value'' = Some v"
    and ws: "v \<noteq> []" "value_space v (hd v) \<or> value_space v (last v)"
  shows "fst (fetch_nonce E \<lparr>world = w, jar = [], exchanged = []\<rparr> base) =
           Inr (utf_8 (stripped_value v))
    \<and> utf_8 (stripped_value v) \<noteq> utf_8 v
    \<and> (\<forall>a b. challenge_login pw (utf_8 (stripped_value v)) = Inr (a, b)
            \<and> (\<exists>u. py_str usr = Inr u) \<longrightarrow>
          (\<exists>body o2.
              exchanged (snd (Login_init E w base usr pw)) =
                [(login_request E base None, Inr fp), (login_request E base (Some body), o2)]
            \<and> urlencode (parameters usr (utf_8 (stripped_value v)) a b) = Inr body
            \<and> map_of (parameters usr (utf_8 (stripped_value v)) a b) ''one_time_token'' =
                Some (Str (utf_8 (stripped_value v)))))"
proof -
  let ?t = "utf_8 (stripped_value v)"
  obtain rest where "Login_xp_nonce html = smart_string v # rest"
    using Login_xp_nonce_Cons [OF first val] by blast
  then have tok: "xp_text_single html Login_xp_nonce = Inr ?t"
    by (simp add: xp_text_single_def clean_string_smart_string)
  have 1: "fst (fetch_nonce E \<lparr>world = w, jar = [], exchanged = []\<rparr> base) = Inr ?t"
    using get parse tok by (simp add: fetch_nonce_unfold)
  have "strip (value_space v) v \<noteq> v"
    using ws by (rule strip_neq)
  then have 2: "?t \<noteq> utf_8 v"
    unfolding stripped_value_def by (rule utf_8_strip_neq)
  have 3: "\<exists>body o2.
              exchanged (snd (Login_init E w base usr pw)) =
                [(login_request E base None, Inr fp), (login_request E base (Some body), o2)]
            \<and> urlencode (parameters usr ?t a b) = Inr body
            \<and> map_of (parameters usr ?t a b) ''one_time_token'' = Some (Str ?t)"
    if dig: "challenge_login pw ?t = Inr (a, b)" and enc: "\<exists>u. py_str usr = Inr u" for a b
  proof -
    obtain body where body: "urlencode (parameters usr ?t a b) = Inr body"
      using enc urlencode_parameters_ok by blast
    obtain o2 j2 w2 where post: "net E w1 j1 (login_request E base (Some body)) = (o2, j2, w2)"
      by (cases "net E w1 j1 (login_request E base (Some body))") auto
    have "exchanged (snd (Login_init E w base usr pw)) =
        [(login_request E base None, Inr fp), (login_request E base (Some body), o2)]"
      unfolding Login_init_unfold
      using get parse tok dig body post
      by (simp add: Let_def split: sum.splits)
    moreover have "map_of (parameters usr ?t a b) ''one_time_token'' = Some (Str ?t)"
      by (simp add: parameters_def)
    ultimately show ?thesis using body by blast
  qed
  from 1 2 3 show ?thesis by blast
qed

theorem nonce_is_stripped_witness:
  "fst (fetch_nonce (mock_env login_page True) \<lparr>world = 0, jar = [], exchanged = []\<rparr>
      ''http://example.test'') = Inr ''N0NCE''
   \<and> ''N0NCE'' \<noteq> utf_8 [32, 78, 48, 78, 67, 69, 32]
   \<and> (\<exists>body o2.
        map fst (exchanged (snd (Login_init (mock_env login_page True) 0 ''http://example.test''
            (Str ''user'') (Str ''abc'')))) =
          [\<lparr>req_url = ''http://example.test/webapps/login/'', req_data = None\<rparr>,
           \<lparr>req_url = ''http://example.test/webapps/login/'', req_data = Some body\<rparr>]
      \<and> urlencode (parameters (Str ''user'') ''N0NCE''
            (spec_encoded_pw (Str ''abc'') ''N0NCE'')
            (spec_encoded_pw_unicode (Str ''abc'') ''N0NCE'')) = Inr body
      \<and> map_of (parameters (Str ''user'') ''N0NCE''
            (spec_encoded_pw (Str ''abc'') ''N0NCE'')
            (spec_encoded_pw_unicode (Str ''abc'') ''N0NCE'')) ''one_time_token'' =
          Some (Str ''N0NCE''))"
proof -
  let ?E = "mock_env login_page True"
  let ?v = "[32, 78, 48, 78, 67, 69, 32] :: nat list"
  let ?a = "spec_encoded_pw (Str ''abc'') ''N0NCE''"
  let ?b = "spec_encoded_pw_unicode (Str ''abc'') ''N0NCE''"
  have val: "map_of (attrib (Element ''input''
        [(''type'', map of_char ''hidden''), (''name'', map of_char ''one_time_token''),
         (''value'', ?v)] [])) ''value'' = Some ?v"
    by simp
  have ws: "?v \<noteq> []" "value_space ?v (hd ?v) \<or> value_space ?v (last ?v)"
    by (simp_all add: value_space_def is_ascii_u_def str_space_cp_def)
  have dig: "challenge_login (Str ''abc'') (utf_8 (stripped_value ?v)) = Inr (?a, ?b)"
    by (simp add: mock_stripped challenge_login_eq is_ascii_def)
  have usr: "\<exists>u. py_str (Str ''user'') = Inr u" by simp
  note inst = nonce_is_stripped [of "?E" 0 "''http://example.test''" _ _ _ login_page _ _ "?v"
      "Str ''abc''" "Str ''user''", OF mock_get mock_parse login_page_inputs val ws]
  from inst have 1: "fst (fetch_nonce ?E \<lparr>world = 0, jar = [], exchanged = []\<rparr>
      ''http://example.test'') = Inr ''N0NCE''"
    by (simp add: mock_stripped)
  from inst have 2: "''N0NCE'' \<noteq> utf_8 ?v"
    by (simp only: mock_stripped) simp
  from inst dig usr obtain body o2 where
    "exchanged (snd (Login_init ?E 0 ''http://example.test'' (Str ''user'') (Str ''abc''))) =
       [(login_request ?E ''http://example.test'' None,
         Inr \<lparr>resp_url = ''http://example.test'' @ ''/webapps/login/'',
               resp_body = ''login page''\<rparr>),
        (login_request ?E ''http://example.test'' (Some body), o2)]"
    "urlencode (parameters (Str ''user'') (utf_8 (stripped_value ?v)) ?a ?b) = Inr body"
    "map_of (parameters (Str ''user'') (utf_8 (stripped_value ?v)) ?a ?b) ''one_time_token'' =
       Some (Str (utf_8 (stripped_value ?v)))"
    by blast
  then have 3: "\<exists>body o2.
        map fst (exchanged (snd (Login_init ?E 0 ''http://example.test''
            (Str ''user'') (Str ''abc'')))) =
          [\<lparr>req_url = ''http://example.test/webapps/login/'', req_data = None\<rparr>,
           \<lparr>req_url = ''http://example.test/webapps/login/'', req_data = Some body\<rparr>]
      \<and> urlencode (parameters (Str ''user'') ''N0NCE'' ?a ?b) = Inr body
      \<and> map_of (parameters (Str ''user'') ''N0NCE'' ?a ?b) ''one_time_token'' =
          Some (Str ''N0NCE'')"
    by (auto simp: mock_stripped login_request_def mock_urljoin_login)
  from 1 2 3 show ?thesis by blast
qed

end
